theory Spec2Isabelle
  imports Complex_Main
begin

section \<open>Numbers, random draws and the engine state\<close>

text \<open>
  The program is JavaScript on the Web Audio API.  A JavaScript number is modelled as a
  \<^typ>\<open>real\<close>: the arithmetic of the source is read as exact arithmetic, so rounding of
  IEEE doubles (and of the 32-bit floats held by audio parameters and sample buffers) is
  idealised away.  Counters are natural numbers.

  \<^verbatim>\<open>Math.random()\<close> is a global source of draws in the half-open interval from 0 to 1.
  It is modelled as an explicit stream of draws: a call takes the head of the stream and
  leaves the tail.
\<close>

type_synonym rng = "nat \<Rightarrow> real"

definition random :: "rng \<Rightarrow> real \<times> rng" where
  "random r = (r 0, \<lambda>n. r (Suc n))"

definition unit_draws :: "rng \<Rightarrow> bool" where
  "unit_draws r \<longleftrightarrow> (\<forall>n. 0 \<le> r n \<and> r n < 1)"

text \<open>
  \<^verbatim>\<open>SoundDesignerEngine\<close> (src/js/sound\_designer\_engine.js).  Audio nodes are
  \<^verbatim>\<open>null\<close> until the audio graph has been built; a node is modelled by the value
  of the parameter the engine writes to it, wrapped in an option.  The spatial panner is
  either a stereo panner (with a \<^verbatim>\<open>pan\<close> parameter) or, on iOS, a plain gain node.
  \<^verbatim>\<open>saturationGain\<close> and \<^verbatim>\<open>saturationNode\<close> are created by the same
  straight-line code of \<^verbatim>\<open>createEffects\<close> and never reset, so they are null together:
  the field \<open>saturation\<close> holds the gain of the first and the curve of the second.  The
  compressor holds its ratio and its threshold.  Writes to the page (slider values, CSS classes) and console output
  are not part of the engine state.
\<close>

datatype panner = StereoPanner real | GainFallback real

record noiseStates =
  brown_state :: real
  pink_generators :: "real list"
  pink_counters :: "nat list"
  violet_state :: real
  violet_prev :: real
  gray_state :: "real list"
  red_state :: real
  green_filterState :: "real list"

record engine =
  isPlaying :: bool
  currentNoiseType :: string
  scriptNodeConnected :: bool
  masterGain :: "real option"
  eqBands :: "real list"
  reverbGain :: "real option"
  dryGain :: "real option"
  spatialPanner :: "panner option"
  warmthFilter :: "real option"
  saturation :: "(real \<times> real list) option"
  compressor :: "(real \<times> real) option"
  modulationGain :: "real option"
  noiseStates :: noiseStates

text \<open>The ten configured bands, \<^verbatim>\<open>this.eqFrequencies\<close>: name, frequency, filter type.\<close>

definition eqFrequencies :: "(string \<times> nat \<times> string) list" where
  "eqFrequencies =
    [(''subbass'', 40, ''lowshelf''),
     (''bass'', 80, ''peaking''),
     (''lowbass'', 160, ''peaking''),
     (''lowmid'', 320, ''peaking''),
     (''mid'', 640, ''peaking''),
     (''uppermid'', 1280, ''peaking''),
     (''lowtreble'', 2560, ''peaking''),
     (''treble'', 5120, ''peaking''),
     (''air'', 10240, ''peaking''),
     (''ultrahigh'', 16000, ''highshelf'')]"

text \<open>\<^verbatim>\<open>Array.prototype.findIndex\<close>: the first index whose element satisfies the
  predicate; \<open>None\<close> stands for the result \<open>-1\<close>.\<close>

fun findIndex :: "('a \<Rightarrow> bool) \<Rightarrow> 'a list \<Rightarrow> nat option" where
  "findIndex p [] = None"
| "findIndex p (x # xs) =
     (if p x then Some 0 else map_option Suc (findIndex p xs))"

section \<open>Equaliser bands and automatic gain compensation\<close>

text \<open>
  \<^verbatim>\<open>updateAutoGainCompensation\<close>: the loop adds up the band gains that are greater
  than zero; above 20 the factor is \<open>20 / totalBoost\<close>, otherwise 1; the master gain, when
  the node exists, is set to the base volume 1.0 times the factor.
\<close>

definition totalBoost :: "real list \<Rightarrow> real" where
  "totalBoost gains = foldl (\<lambda>total gain. if gain > 0 then total + gain else total) 0 gains"

definition compensationFactor :: "real list \<Rightarrow> real" where
  "compensationFactor gains =
     (if totalBoost gains > 20 then 20 / totalBoost gains else 1)"

definition updateAutoGainCompensation :: "engine \<Rightarrow> engine" where
  "updateAutoGainCompensation s =
     (let baseVolume = 1;
          compensatedVolume = baseVolume * compensationFactor (eqBands s)
      in case masterGain s of
           None \<Rightarrow> s
         | Some _ \<Rightarrow> s\<lparr>masterGain := Some compensatedVolume\<rparr>)"

text \<open>
  \<^verbatim>\<open>updateEQBand(bandName, gainDb)\<close>: the band is looked up by name; only when it
  is found and its filter node exists is the gain written and the compensation recomputed.
\<close>

definition updateEQBand :: "engine \<Rightarrow> string \<Rightarrow> real \<Rightarrow> engine" where
  "updateEQBand s bandName gainDb =
     (case findIndex (\<lambda>band. fst band = bandName) eqFrequencies of
        None \<Rightarrow> s
      | Some bandIndex \<Rightarrow>
          if bandIndex < length (eqBands s)
          then updateAutoGainCompensation (s\<lparr>eqBands := (eqBands s)[bandIndex := gainDb]\<rparr>)
          else s)"

section \<open>Per-sample noise generators of the engine\<close>

text \<open>
  Every generator takes the generator memory and the stream of draws and returns the
  sample, the new memory and the rest of the stream.  The arrays of the memory have the
  lengths the constructor gives them (seven pink rows, four gray cells, six green cells).
\<close>

definition generateWhiteNoise :: "noiseStates \<Rightarrow> rng \<Rightarrow> real \<times> noiseStates \<times> rng" where
  "generateWhiteNoise ns r = (let (u, r1) = random r in ((u * 2 - 1) * 0.3, ns, r1))"

definition updateRates :: "nat list" where
  "updateRates = [1, 2, 4, 8, 16, 32, 64]"

text \<open>The body of \<^verbatim>\<open>updateRates.forEach((rate, index) => ...)\<close>, one row after the other
  (\<open>acc\<close> is the variable \<^verbatim>\<open>sum\<close> of the source).\<close>

fun pinkRows :: "(nat \<times> nat) list \<Rightarrow> real list \<Rightarrow> nat list \<Rightarrow> real \<Rightarrow> rng
    \<Rightarrow> real \<times> real list \<times> nat list \<times> rng" where
  "pinkRows [] generators counters acc r = (acc, generators, counters, r)"
| "pinkRows ((index, rate) # rest) generators counters acc r =
     (let (generators1, r1) =
            (if counters ! index mod rate = 0
             then (let (u, r') = random r in (generators[index := u * 2 - 1], r'))
             else (generators, r));
          sum1 = acc + generators1 ! index;
          counters1 = counters[index := counters ! index + 1]
      in pinkRows rest generators1 counters1 sum1 r1)"

definition generatePinkNoise :: "noiseStates \<Rightarrow> rng \<Rightarrow> real \<times> noiseStates \<times> rng" where
  "generatePinkNoise ns r =
     (let (sum0, generators, counters, r1) =
            pinkRows (enumerate 0 updateRates) (pink_generators ns) (pink_counters ns) 0 r
      in (sum0 * 0.05, ns\<lparr>pink_generators := generators, pink_counters := counters\<rparr>, r1))"

text \<open>The "gentle limiting" of the brown generator: above 0.95 only a tenth of the
  excess is kept.\<close>

definition gentleLimit :: "real \<Rightarrow> real" where
  "gentleLimit st =
     (if \<bar>st\<bar> > 0.95
      then (let sign = sgn st; excess = \<bar>st\<bar> - 0.95 in sign * (0.95 + excess * 0.1))
      else st)"

definition generateBrownNoise :: "noiseStates \<Rightarrow> rng \<Rightarrow> real \<times> noiseStates \<times> rng" where
  "generateBrownNoise ns r =
     (let scaling = 0.02;
          leakage = 0.999;
          (u, r1) = random r;
          randomStep = (u * 2 - 1) * scaling;
          st = gentleLimit (brown_state ns * leakage + randomStep)
      in (st * 0.4, ns\<lparr>brown_state := st\<rparr>, r1))"

definition generateBlueNoise :: "noiseStates \<Rightarrow> rng \<Rightarrow> real \<times> noiseStates \<times> rng" where
  "generateBlueNoise ns r =
     (let (whiteNoise, ns1, r1) = generateWhiteNoise ns r;
          (u, r2) = random r1
      in (whiteNoise * (1 + u * 0.5) * 0.6, ns1, r2))"

definition generateVioletNoise :: "noiseStates \<Rightarrow> rng \<Rightarrow> real \<times> noiseStates \<times> rng" where
  "generateVioletNoise ns r =
     (let (input, ns1, r1) = generateWhiteNoise ns r;
          output = input - violet_prev ns1
      in (output * 0.5, ns1\<lparr>violet_prev := input\<rparr>, r1))"

function grayLoop :: "nat \<Rightarrow> real list \<Rightarrow> real \<Rightarrow> real list \<times> real" where
  "grayLoop i st output =
     (if i + 1 < length st
      then (let filtered = 0.7 * output + 0.3 * st ! i;
                st1 = st[i + 1 := st ! i];
                st2 = st1[i := filtered]
            in grayLoop (i + 1) st2 filtered)
      else (st, output))"
  by pat_completeness auto
termination
  by (relation "measure (\<lambda>(i, st, output). length st - i)") auto

definition generateGrayNoise :: "noiseStates \<Rightarrow> rng \<Rightarrow> real \<times> noiseStates \<times> rng" where
  "generateGrayNoise ns r =
     (let (input, ns1, r1) = generateWhiteNoise ns r;
          (st, output) = grayLoop 0 (gray_state ns1) input
      in (output * 0.6, ns1\<lparr>gray_state := st\<rparr>, r1))"

text \<open>The red generator: the same leaky integrator with a smaller step and a leak
  closer to one; the source has no limiting step here.\<close>

definition generateRedNoise :: "noiseStates \<Rightarrow> rng \<Rightarrow> real \<times> noiseStates \<times> rng" where
  "generateRedNoise ns r =
     (let scaling = 0.01;
          leakage = 0.9995;
          (u, r1) = random r;
          randomStep = (u * 2 - 1) * scaling;
          st = red_state ns * leakage + randomStep
      in (st * 0.8, ns\<lparr>red_state := st\<rparr>, r1))"

function greenLoop :: "nat \<Rightarrow> real list \<Rightarrow> real \<Rightarrow> real list \<times> real" where
  "greenLoop i filterState sample =
     (if i + 1 < length filterState
      then (let hp = sample - filterState ! i * 0.95;
                lp = hp * 0.1 + filterState ! (i + 1) * 0.9;
                fs1 = filterState[i := sample];
                fs2 = fs1[i + 1 := lp]
            in greenLoop (i + 2) fs2 lp)
      else (filterState, sample))"
  by pat_completeness auto
termination
  by (relation "measure (\<lambda>(i, filterState, sample). length filterState - i)") auto

definition generateGreenNoise :: "noiseStates \<Rightarrow> rng \<Rightarrow> real \<times> noiseStates \<times> rng" where
  "generateGreenNoise ns r =
     (let (input, ns1, r1) = generateWhiteNoise ns r;
          (fs, sample) = greenLoop 0 (green_filterState ns1) input
      in (sample * 1.2, ns1\<lparr>green_filterState := fs\<rparr>, r1))"

section \<open>The render callback of the engine\<close>

text \<open>The \<^verbatim>\<open>switch (this.currentNoiseType)\<close> of \<^verbatim>\<open>generateAudio\<close>, with its
  \<^verbatim>\<open>default\<close> branch last.\<close>

definition switchNoiseType :: "string \<Rightarrow> noiseStates \<Rightarrow> rng \<Rightarrow> real \<times> noiseStates \<times> rng" where
  "switchNoiseType t ns r =
     (if t = ''white'' then generateWhiteNoise ns r
      else if t = ''pink'' then generatePinkNoise ns r
      else if t = ''brown'' then generateBrownNoise ns r
      else if t = ''blue'' then generateBlueNoise ns r
      else if t = ''violet'' then generateVioletNoise ns r
      else if t = ''gray'' then generateGrayNoise ns r
      else if t = ''red'' then generateRedNoise ns r
      else if t = ''green'' then generateGreenNoise ns r
      else generateWhiteNoise ns r)"

function audioLoop :: "nat \<Rightarrow> nat \<Rightarrow> engine \<Rightarrow> real list \<Rightarrow> real list \<Rightarrow> rng
    \<Rightarrow> real list \<times> real list \<times> engine \<times> rng" where
  "audioLoop i bufferLength s outputL outputR r =
     (if i < bufferLength
      then (let (sample, ns1, r1) = switchNoiseType (currentNoiseType s) (noiseStates s) r;
                (u, r2) = random r1
            in audioLoop (i + 1) bufferLength (s\<lparr>noiseStates := ns1\<rparr>)
                 (outputL[i := sample]) (outputR[i := sample * 0.95 + (u * 0.1 - 0.05)]) r2)
      else (outputL, outputR, s, r))"
  by pat_completeness auto
termination
  by (relation "measure (\<lambda>(i, bufferLength, s, outputL, outputR, r). bufferLength - i)") auto

text \<open>
  \<^verbatim>\<open>generateAudio(event)\<close>: the two channel arrays of the event's output buffer come in
  and go out; \<^verbatim>\<open>bufferLength\<close> is their common length.
\<close>

definition generateAudio :: "engine \<Rightarrow> real list \<Rightarrow> real list \<Rightarrow> rng
    \<Rightarrow> real list \<times> real list \<times> engine \<times> rng" where
  "generateAudio s outputL outputR r =
     (let bufferLength = length outputL
      in if \<not> isPlaying s
         then (replicate (length outputL) 0, replicate (length outputR) 0, s, r)
         else audioLoop 0 bufferLength s outputL outputR r)"

text \<open>\<^verbatim>\<open>stop()\<close>: "Script processor stays connected, just change state to generate silence".\<close>

definition stop :: "engine \<Rightarrow> engine" where
  "stop s = (if isPlaying s then s\<lparr>isPlaying := False\<rparr> else s)"

definition selectNoiseType :: "engine \<Rightarrow> string \<Rightarrow> engine" where
  "selectNoiseType s t = s\<lparr>currentNoiseType := t\<rparr>"

section \<open>Transfer curves\<close>

text \<open>
  Both curves are tables of \<^verbatim>\<open>samples = 44100\<close> entries; entry \<open>i\<close> is computed at
  \<open>x = (i * 2) / samples - 1\<close>.
\<close>

definition samples :: nat where
  "samples = 44100"

definition curveX :: "nat \<Rightarrow> real" where
  "curveX i = (real i * 2) / real samples - 1"

definition deg :: real where
  "deg = pi / 180"

text \<open>The expression assigned to \<^verbatim>\<open>curve[i]\<close> in \<^verbatim>\<open>createSaturationCurve(amount)\<close>.\<close>

definition saturationPoint :: "real \<Rightarrow> real \<Rightarrow> real" where
  "saturationPoint amount x = ((3 + amount * 20) * x * 20 * deg) / (pi + amount * \<bar>x\<bar>)"

definition createSaturationCurve :: "real \<Rightarrow> real list" where
  "createSaturationCurve amount = map (\<lambda>i. saturationPoint amount (curveX i)) [0..<samples]"

text \<open>The expression assigned to \<^verbatim>\<open>curve[i]\<close> in \<^verbatim>\<open>createSoftLimiterCurve()\<close>.\<close>

definition softLimiterPoint :: "real \<Rightarrow> real" where
  "softLimiterPoint x = tanh (x * 0.7) * 0.95"

definition createSoftLimiterCurve :: "real list" where
  "createSoftLimiterCurve = map (\<lambda>i. softLimiterPoint (curveX i)) [0..<samples]"

text \<open>
  The limiter is a \<^verbatim>\<open>WaveShaperNode\<close> holding the table.  The node is the platform's:
  as the Web Audio API defines it, an input sample \<open>x\<close> is mapped to the position
  \<open>v = (N - 1) / 2 * (x + 1)\<close> of the table of \<open>N\<close> entries; at or below position 0 the first
  entry is the output, at or above position \<open>N - 1\<close> the last, and in between the two
  neighbouring entries are interpolated linearly.  (Oversampling is left out.)
\<close>

definition waveShaper :: "real list \<Rightarrow> real \<Rightarrow> real" where
  "waveShaper curve x =
     (let N = length curve;
          v = (real N - 1) / 2 * (x + 1)
      in if v \<le> 0 then curve ! 0
         else if real N - 1 \<le> v then curve ! (N - 1)
         else (let k = nat \<lfloor>v\<rfloor>; f = v - real k
               in (1 - f) * curve ! k + f * curve ! (k + 1)))"

section \<open>Effect knobs of the engine\<close>

text \<open>\<^verbatim>\<open>updateEffect(effectName, value)\<close>; a name outside the six cases changes nothing.\<close>

definition updateEffect :: "engine \<Rightarrow> string \<Rightarrow> real \<Rightarrow> engine" where
  "updateEffect s effectName v =
     (let normalizedValue = v / 100
      in if effectName = ''reverb'' then
           (if reverbGain s \<noteq> None \<and> dryGain s \<noteq> None
            then s\<lparr>reverbGain := Some (normalizedValue * 0.8),
                   dryGain := Some (1 - normalizedValue * 0.5)\<rparr>
            else s)
         else if effectName = ''spatial'' then
           (case spatialPanner s of
              Some (StereoPanner _) \<Rightarrow>
                s\<lparr>spatialPanner := Some (StereoPanner ((normalizedValue - 0.5) * 0.6))\<rparr>
            | _ \<Rightarrow> s)
         else if effectName = ''warmth'' then
           (if warmthFilter s \<noteq> None
            then s\<lparr>warmthFilter := Some (max 1000 (20000 - normalizedValue * 15000))\<rparr>
            else s)
         else if effectName = ''saturation'' then
           (if saturation s \<noteq> None
            then s\<lparr>saturation :=
                     Some (1 + normalizedValue * 1.5, createSaturationCurve (normalizedValue * 0.8))\<rparr>
            else s)
         else if effectName = ''dynamics'' then
           (if compressor s \<noteq> None
            then s\<lparr>compressor := Some (1 + normalizedValue * 8, - 40 + normalizedValue * 35)\<rparr>
            else s)
         else if effectName = ''modulation'' then
           (if modulationGain s \<noteq> None
            then s\<lparr>modulationGain := Some (normalizedValue * 0.3)\<rparr>
            else s)
         else s)"

section \<open>Profiles\<close>

text \<open>
  A parsed profile: each of the three fields the loader reads may be missing.  The two
  objects are association lists in key order, as \<^verbatim>\<open>Object.keys\<close> enumerates them.
  \<^verbatim>\<open>if (profile.noiseType)\<close> is also false for the empty string.  The value of a key
  is either a number or something that does not convert to a finite number; an audio
  parameter refuses to be set to the latter and throws.
\<close>

datatype jsonValue = Number real | NonNumeric



text \<open>
  A call either returns or throws; in both cases the engine is left as the writes made so
  far have made it.
\<close>

datatype outcome = Returned engine | Threw engine

fun reached :: "outcome \<Rightarrow> engine" where
  "reached (Returned s) = s"
| "reached (Threw s) = s"


text \<open>
  The guards of the six cases of \<^verbatim>\<open>updateEffect\<close>.  Inside each guard the first
  statement writes an audio parameter computed from the value.
\<close>

definition effectNodeExists :: "engine \<Rightarrow> string \<Rightarrow> bool" where
  "effectNodeExists s effectName =
     (if effectName = ''reverb'' then reverbGain s \<noteq> None \<and> dryGain s \<noteq> None
      else if effectName = ''spatial'' then
        (case spatialPanner s of Some (StereoPanner _) \<Rightarrow> True | _ \<Rightarrow> False)
      else if effectName = ''warmth'' then warmthFilter s \<noteq> None
      else if effectName = ''saturation'' then saturation s \<noteq> None
      else if effectName = ''dynamics'' then compressor s \<noteq> None
      else if effectName = ''modulation'' then modulationGain s \<noteq> None
      else False)"



definition loadEffectKey :: "(string \<Rightarrow> bool) \<Rightarrow> engine \<Rightarrow> string \<times> jsonValue \<Rightarrow> outcome" where
  "loadEffectKey page s kv =
     (case kv of (effectName, v) \<Rightarrow>
        if page effectName \<and> page (''val-'' @ effectName)
        then (case v of
                Number x \<Rightarrow> Returned (updateEffect s effectName x)
              | NonNumeric \<Rightarrow> if effectNodeExists s effectName then Threw s else Returned s)
        else Returned s)"

fun loadEffects :: "(string \<Rightarrow> bool) \<Rightarrow> engine \<Rightarrow> (string \<times> jsonValue) list \<Rightarrow> outcome" where
  "loadEffects page s [] = Returned s"
| "loadEffects page s (kv # kvs) =
     (case loadEffectKey page s kv of
        Returned s' \<Rightarrow> loadEffects page s' kvs
      | Threw s' \<Rightarrow> Threw s')"




section \<open>The stand-alone generator class\<close>

text \<open>
  \<^verbatim>\<open>NoiseGenerator\<close> (src/js/NoiseGenerator.js) and its continuous, per-sample
  generators.  \<^verbatim>\<open>greenNoiseBuffer\<close> and \<^verbatim>\<open>blueNoisePrev\<close> are undefined until first
  used.
\<close>

record noiseGenerator =
  ng_currentNoiseType :: string
  brownNoiseState :: real
  pinkNoiseState :: "real list"
  pinkNoiseCounters :: "nat list"
  greenNoiseBuffer :: "(real \<times> real) option"
  blueNoisePrev :: "real option"

definition generatePinkNoiseSample :: "noiseGenerator \<Rightarrow> rng \<Rightarrow> real \<times> noiseGenerator \<times> rng" where
  "generatePinkNoiseSample g r =
     (let (sum0, generators, counters, r1) =
            pinkRows (enumerate 0 updateRates) (pinkNoiseState g) (pinkNoiseCounters g) 0 r
      in (sum0 * 0.15, g\<lparr>pinkNoiseState := generators, pinkNoiseCounters := counters\<rparr>, r1))"

definition generateBrownNoiseSample :: "noiseGenerator \<Rightarrow> rng \<Rightarrow> real \<times> noiseGenerator \<times> rng" where
  "generateBrownNoiseSample g r =
     (let scaling = 0.018;
          leakage = 0.9995;
          (u, r1) = random r;
          randomStep = (u * 2 - 1) * scaling;
          st = gentleLimit (brownNoiseState g * leakage + randomStep)
      in (st, g\<lparr>brownNoiseState := st\<rparr>, r1))"

definition generateGreenNoiseSample :: "noiseGenerator \<Rightarrow> rng \<Rightarrow> real \<times> noiseGenerator \<times> rng" where
  "generateGreenNoiseSample g r =
     (let (u, r1) = random r;
          whiteNoise = u * 2 - 1;
          (b0, b1) = (case greenNoiseBuffer g of None \<Rightarrow> (0, 0) | Some b \<Rightarrow> b);
          filtered = 0.8 * whiteNoise + 0.3 * b0 - 0.1 * b1
      in (filtered * 0.7, g\<lparr>greenNoiseBuffer := Some (filtered, b0)\<rparr>, r1))"

definition generateBlueNoiseSample :: "noiseGenerator \<Rightarrow> rng \<Rightarrow> real \<times> noiseGenerator \<times> rng" where
  "generateBlueNoiseSample g r =
     (let (u, r1) = random r;
          whiteNoise = u * 2 - 1;
          prev = (case blueNoisePrev g of None \<Rightarrow> 0 | Some b \<Rightarrow> b);
          alpha = 0.85;
          highpass = alpha * (prev + whiteNoise - prev)
      in (highpass * 0.8, g\<lparr>blueNoisePrev := Some whiteNoise\<rparr>, r1))"

text \<open>The \<^verbatim>\<open>switch\<close> of \<^verbatim>\<open>generateContinuousNoise\<close>.\<close>

definition continuousSwitch :: "noiseGenerator \<Rightarrow> rng \<Rightarrow> real \<times> noiseGenerator \<times> rng" where
  "continuousSwitch g r =
     (let t = ng_currentNoiseType g
      in if t = ''white'' then (let (u, r1) = random r in (u * 2 - 1, g, r1))
         else if t = ''pink'' then generatePinkNoiseSample g r
         else if t = ''brown'' then generateBrownNoiseSample g r
         else if t = ''green'' then generateGreenNoiseSample g r
         else if t = ''blue'' then generateBlueNoiseSample g r
         else generatePinkNoiseSample g r)"

function continuousLoop :: "nat \<Rightarrow> nat \<Rightarrow> noiseGenerator \<Rightarrow> real list \<Rightarrow> real list \<Rightarrow> rng
    \<Rightarrow> real list \<times> real list \<times> noiseGenerator \<times> rng" where
  "continuousLoop i bufferLength g outputL outputR r =
     (if i < bufferLength
      then (let (sample, g1, r1) = continuousSwitch g r;
                (u, r2) = random r1
            in continuousLoop (i + 1) bufferLength g1
                 (outputL[i := sample]) (outputR[i := sample * 0.95 + (u * 0.1 - 0.05)]) r2)
      else (outputL, outputR, g, r))"
  by pat_completeness auto
termination
  by (relation "measure (\<lambda>(i, bufferLength, g, outputL, outputR, r). bufferLength - i)") auto

definition generateContinuousNoise :: "noiseGenerator \<Rightarrow> real list \<Rightarrow> real list \<Rightarrow> rng
    \<Rightarrow> real list \<times> real list \<times> noiseGenerator \<times> rng" where
  "generateContinuousNoise g outputL outputR r =
     continuousLoop 0 (length outputL) g outputL outputR r"

section \<open>The stand-alone effects class\<close>

text \<open>\<^verbatim>\<open>AudioEffects.setReverbLevel(level)\<close> (the third file of src/update-index.js).\<close>

record audioEffects =
  reverbLevel :: real
  ae_dryGain :: "real option"
  ae_reverbGain :: "real option"

definition setReverbLevel :: "audioEffects \<Rightarrow> real \<Rightarrow> audioEffects" where
  "setReverbLevel a level =
     (let a1 = a\<lparr>reverbLevel := max 0 (min 1 level)\<rparr>
      in if ae_dryGain a1 \<noteq> None \<and> ae_reverbGain a1 \<noteq> None
         then (let dryLevel = sqrt (1 - reverbLevel a1);
                   wetLevel = sqrt (reverbLevel a1)
               in a1\<lparr>ae_dryGain := Some dryLevel, ae_reverbGain := Some wetLevel\<rparr>)
         else a1)"

section \<open>Runs and concrete states\<close>

text \<open>\<open>n\<close> consecutive calls of one generator.\<close>

fun calls :: "(noiseStates \<Rightarrow> rng \<Rightarrow> real \<times> noiseStates \<times> rng) \<Rightarrow> nat \<Rightarrow> noiseStates \<Rightarrow> rng
    \<Rightarrow> noiseStates \<times> rng" where
  "calls gen 0 ns r = (ns, r)"
| "calls gen (Suc n) ns r = (let (x, ns1, r1) = gen ns r in calls gen n ns1 r1)"

text \<open>The generator memory the constructor builds; its seven pink rows are random
  draws, given here as a list.  \<open>someRows\<close> is one such list, from draws of one half.\<close>

definition someRows :: "real list" where
  "someRows = [0, 0, 0, 0, 0, 0, 0]"

definition freshNoiseStates :: "real list \<Rightarrow> noiseStates" where
  "freshNoiseStates rows =
     \<lparr>brown_state = 0, pink_generators = rows, pink_counters = replicate 7 0,
      violet_state = 0, violet_prev = 0, gray_state = replicate 4 0,
      red_state = 0, green_filterState = replicate 6 0\<rparr>"

text \<open>The engine after the constructor, and after \<^verbatim>\<open>createAudioGraph\<close> on a platform
  with a stereo panner.\<close>

definition newEngine :: "real list \<Rightarrow> engine" where
  "newEngine rows =
     \<lparr>isPlaying = False, currentNoiseType = ''white'', scriptNodeConnected = False,
      masterGain = None, eqBands = [], reverbGain = None, dryGain = None,
      spatialPanner = None, warmthFilter = None, saturation = None,
      compressor = None, modulationGain = None, noiseStates = freshNoiseStates rows\<rparr>"

definition createAudioGraph :: "engine \<Rightarrow> engine" where
  "createAudioGraph s =
     s\<lparr>masterGain := Some 1,
       eqBands := map (\<lambda>bandConfig. 0) eqFrequencies,
       reverbGain := Some 0.2, dryGain := Some 0.8,
       spatialPanner := Some (StereoPanner 0),
       warmthFilter := Some 8000,
       saturation := Some (1, createSaturationCurve 0.5),
       compressor := Some (3, - 24),
       modulationGain := Some 0,
       scriptNodeConnected := True\<rparr>"

text \<open>The case labels of the two switches.\<close>

definition recognizedTypes :: "string list" where
  "recognizedTypes =
     [''white'', ''pink'', ''brown'', ''blue'', ''violet'', ''gray'', ''red'', ''green'']"

definition continuousTypes :: "string list" where
  "continuousTypes = [''white'', ''pink'', ''brown'', ''green'', ''blue'']"

text \<open>The stand-alone generator after its constructor.\<close>

definition newNoiseGenerator :: "real list \<Rightarrow> noiseGenerator" where
  "newNoiseGenerator rows =
     \<lparr>ng_currentNoiseType = ''pink'', brownNoiseState = 0, pinkNoiseState = rows,
      pinkNoiseCounters = replicate 7 0, greenNoiseBuffer = None, blueNoisePrev = None\<rparr>"

text \<open>A stream that always draws the same number, and the generator memory after 99
  calls of the red generator on draws of 0.995.\<close>

definition constDraws :: "real \<Rightarrow> rng" where
  "constDraws c k = c"

definition redAfter99 :: noiseStates where
  "redAfter99 = fst (calls generateRedNoise 99 (freshNoiseStates someRows) (constDraws (199 / 200)))"








section \<open>Gain compensation: properties\<close>

lemma foldl_boost_acc:
  "foldl (\<lambda>total gain. if gain > 0 then total + gain else total) a gains =
     a + sum_list (filter (\<lambda>g. 0 < g) gains)"
  for a :: real
  by (induction gains arbitrary: a) simp_all

lemma totalBoost_sum: "totalBoost gains = sum_list (filter (\<lambda>g. 0 < g) gains)"
  by (simp add: totalBoost_def foldl_boost_acc)

lemma totalBoost_nonneg: "0 \<le> totalBoost gains"
  unfolding totalBoost_sum by (induction gains) simp_all

lemma compensationFactor_range: "0 < compensationFactor gains \<and> compensationFactor gains \<le> 1"
  by (simp add: compensationFactor_def)

lemma compensated_boost_le: "compensationFactor gains * totalBoost gains \<le> 20"
  by (simp add: compensationFactor_def)

lemma findIndex_bass: "findIndex (\<lambda>band. fst band = ''bass'') eqFrequencies = Some 1"
  by (simp add: eqFrequencies_def)

text \<open>
  Claim C2.  The compensation adds up only the band gains that are strictly positive.
  When that sum is at most 20 the factor is 1; above 20 it is 20 divided by the sum.  The
  factor lies in the interval from 0 (excluded) to 1, and the factor times the sum never
  exceeds 20.  The master gain is set to the base volume 1 times the factor, and an update
  of a configured band whose filter exists writes the gain and recomputes the factor from
  the updated gains.
\<close>

theorem gain_compensation:
  "totalBoost gains = sum_list (filter (\<lambda>g. 0 < g) gains)
   \<and> (totalBoost gains \<le> 20 \<longrightarrow> compensationFactor gains = 1)
   \<and> (20 < totalBoost gains \<longrightarrow> compensationFactor gains = 20 / totalBoost gains)
   \<and> 0 < compensationFactor gains \<and> compensationFactor gains \<le> 1
   \<and> compensationFactor gains * totalBoost gains \<le> 20
   \<and> (masterGain s \<noteq> None \<longrightarrow>
        masterGain (updateAutoGainCompensation s) = Some (1 * compensationFactor (eqBands s)))
   \<and> (findIndex (\<lambda>band. fst band = bandName) eqFrequencies = Some i
        \<and> i < length (eqBands s) \<and> masterGain s \<noteq> None \<longrightarrow>
        eqBands (updateEQBand s bandName g) = (eqBands s)[i := g]
        \<and> masterGain (updateEQBand s bandName g) = Some (1 * compensationFactor ((eqBands s)[i := g])))"
  using compensationFactor_range [of gains] compensated_boost_le [of gains]
  by (auto simp: totalBoost_sum [symmetric] compensationFactor_def updateAutoGainCompensation_def
        updateEQBand_def Let_def split: option.splits)

theorem gain_compensation_witness:
  "totalBoost [0, 30, 0, 0, 0, 0, 0, 0, 0, 0] = 30
   \<and> compensationFactor [0, 30, 0, 0, 0, 0, 0, 0, 0, 0] = 2 / 3
   \<and> totalBoost [5, - 3, 15] = 20 \<and> compensationFactor [5, - 3, 15] = 1
   \<and> masterGain (updateEQBand (createAudioGraph (newEngine someRows)) ''bass'' 30) = Some (2 / 3)"
proof -
  let ?s = "createAudioGraph (newEngine someRows)"
  have e: "eqBands ?s = [0, 0, 0, 0, 0, 0, 0, 0, 0, 0]"
    by (simp add: createAudioGraph_def eqFrequencies_def)
  have m: "masterGain ?s \<noteq> None"
    by (simp add: createAudioGraph_def)
  have t1: "totalBoost [0, 30, 0, 0, 0, 0, 0, 0, 0, 0] = 30" and t2: "totalBoost [5, - 3, 15] = 20"
    by (simp_all add: totalBoost_def)
  from gain_compensation [of "[0, 30, 0, 0, 0, 0, 0, 0, 0, 0]" ?s "''bass''" 1 30] t1 e m findIndex_bass
  have a: "compensationFactor [0, 30, 0, 0, 0, 0, 0, 0, 0, 0] = 2 / 3"
    and b: "masterGain (updateEQBand ?s ''bass'' 30) = Some (2 / 3)"
    by simp_all
  from gain_compensation [of "[5, - 3, 15]" ?s "''bass''" 1 30] t2
  have c: "compensationFactor [5, - 3, 15] = 1" by simp
  from a b c t1 t2 show ?thesis by simp
qed

section \<open>Soft limiter: properties\<close>

lemma softLimiterPoint_bound: "\<bar>softLimiterPoint x\<bar> \<le> 0.95"
proof -
  have "\<bar>tanh (x * 0.7)\<bar> < 1"
    using tanh_real_lt_1 [of "x * 0.7"] tanh_real_gt_neg1 [of "x * 0.7"] by (simp add: abs_less_iff)
  then show ?thesis by (simp add: softLimiterPoint_def abs_mult)
qed

lemma length_softLimiter: "length createSoftLimiterCurve = samples"
  by (simp add: createSoftLimiterCurve_def)

lemma nth_softLimiter: "i < samples \<Longrightarrow> createSoftLimiterCurve ! i = softLimiterPoint (curveX i)"
  by (simp add: createSoftLimiterCurve_def)

lemma interpolate_bound:
  fixes a b f B :: real
  assumes "\<bar>a\<bar> \<le> B" "\<bar>b\<bar> \<le> B" "0 \<le> f" "f \<le> 1"
  shows "\<bar>(1 - f) * a + f * b\<bar> \<le> B"
proof -
  have "\<bar>(1 - f) * a + f * b\<bar> \<le> \<bar>(1 - f) * a\<bar> + \<bar>f * b\<bar>" by (rule abs_triangle_ineq)
  also have "\<dots> = (1 - f) * \<bar>a\<bar> + f * \<bar>b\<bar>" using assms by (simp add: abs_mult)
  also have "\<dots> \<le> (1 - f) * B + f * B"
    using assms by (intro add_mono mult_left_mono) simp_all
  also have "\<dots> = B" by (simp add: algebra_simps)
  finally show ?thesis .
qed

lemma waveShaper_bound:
  assumes curve: "\<And>i. i < length curve \<Longrightarrow> \<bar>curve ! i\<bar> \<le> B" and ne: "0 < length curve"
  shows "\<bar>waveShaper curve x\<bar> \<le> B"
proof -
  define N where "N = length curve"
  define v where "v = (real N - 1) / 2 * (x + 1)"
  define k where "k = nat \<lfloor>v\<rfloor>"
  have ws: "waveShaper curve x =
      (if v \<le> 0 then curve ! 0
       else if real N - 1 \<le> v then curve ! (N - 1)
       else (1 - (v - real k)) * curve ! k + (v - real k) * curve ! (k + 1))"
    by (simp only: waveShaper_def Let_def v_def N_def k_def)
  consider "v \<le> 0" | "0 < v" "real N - 1 \<le> v" | "0 < v" "v < real N - 1" by linarith
  then show ?thesis
  proof cases
    case 1
    then show ?thesis using curve [of 0] ne by (simp add: ws)
  next
    case 2
    then show ?thesis using curve [of "N - 1"] ne by (simp add: ws N_def)
  next
    case 3
    have k: "real k \<le> v" "v < real k + 1" using 3 unfolding k_def by linarith+
    then have "real k + 1 < real N" using 3 by linarith
    then have "k + 1 < length curve" unfolding N_def by linarith
    then have "\<bar>curve ! k\<bar> \<le> B" "\<bar>curve ! (k + 1)\<bar> \<le> B" using curve by simp_all
    then have "\<bar>(1 - (v - real k)) * curve ! k + (v - real k) * curve ! (k + 1)\<bar> \<le> B"
      using k by (intro interpolate_bound) simp_all
    then show ?thesis using 3 by (simp add: ws)
  qed
qed

text \<open>
  Claim C1.  The limiter table has 44100 entries; entry \<open>i\<close> is the hyperbolic tangent of
  0.7 times a point of the interval from -1 to 1, scaled by 0.95, so every entry has
  magnitude at most 0.95.  Whatever sample reaches the limiter, from whatever noise type
  and parameter setting upstream, the shaped output has magnitude at most 0.95 and so lies
  between -1 and 1.
\<close>

theorem soft_limiter_bounded:
  "length createSoftLimiterCurve = 44100
   \<and> (\<forall>i < length createSoftLimiterCurve.
        createSoftLimiterCurve ! i = tanh (curveX i * 0.7) * 0.95
        \<and> - 1 \<le> curveX i \<and> curveX i \<le> 1
        \<and> \<bar>createSoftLimiterCurve ! i\<bar> \<le> 0.95)
   \<and> (\<forall>x. \<bar>softLimiterPoint x\<bar> \<le> 0.95)
   \<and> (\<forall>x. \<bar>waveShaper createSoftLimiterCurve x\<bar> \<le> 0.95
        \<and> - 1 \<le> waveShaper createSoftLimiterCurve x \<and> waveShaper createSoftLimiterCurve x \<le> 1)"
proof (intro conjI allI impI)
  show "length createSoftLimiterCurve = 44100"
    by (simp add: length_softLimiter samples_def)
next
  fix i assume i: "i < length createSoftLimiterCurve"
  then show "createSoftLimiterCurve ! i = tanh (curveX i * 0.7) * 0.95"
    by (simp add: length_softLimiter nth_softLimiter softLimiterPoint_def)
  from i show "- 1 \<le> curveX i" "curveX i \<le> 1"
    by (simp_all add: length_softLimiter curveX_def samples_def field_simps)
  from i show "\<bar>createSoftLimiterCurve ! i\<bar> \<le> 0.95"
    using softLimiterPoint_bound [of "curveX i"] by (simp add: length_softLimiter nth_softLimiter)
next
  fix x :: real
  show "\<bar>softLimiterPoint x\<bar> \<le> 0.95" by (rule softLimiterPoint_bound)
  have ws: "\<bar>waveShaper createSoftLimiterCurve x\<bar> \<le> 0.95"
  proof (rule waveShaper_bound)
    fix i assume "i < length createSoftLimiterCurve"
    then show "\<bar>createSoftLimiterCurve ! i\<bar> \<le> 0.95"
      using softLimiterPoint_bound [of "curveX i"] by (simp add: length_softLimiter nth_softLimiter)
  qed (simp add: length_softLimiter samples_def)
  then show "\<bar>waveShaper createSoftLimiterCurve x\<bar> \<le> 0.95" .
  from ws show "- 1 \<le> waveShaper createSoftLimiterCurve x" "waveShaper createSoftLimiterCurve x \<le> 1"
    by (simp_all add: abs_le_iff)
qed

theorem soft_limiter_bounded_witness:
  "(22050::nat) < length createSoftLimiterCurve \<and> curveX 22050 = 0
   \<and> createSoftLimiterCurve ! 22050 = 0 \<and> \<bar>createSoftLimiterCurve ! 22050\<bar> \<le> 0.95"
proof -
  have c: "curveX 22050 = 0" by (simp add: curveX_def samples_def)
  from soft_limiter_bounded have l: "(22050::nat) < length createSoftLimiterCurve" by simp
  from soft_limiter_bounded l
  have "createSoftLimiterCurve ! 22050 = tanh (curveX 22050 * 0.7) * 0.95
        \<and> \<bar>createSoftLimiterCurve ! 22050\<bar> \<le> 0.95"
    by blast
  with c l show ?thesis by simp
qed

section \<open>Band updates, rendering while stopped, switching the type\<close>

lemma findIndex_None_iff: "findIndex p xs = None \<longleftrightarrow> (\<forall>x \<in> set xs. \<not> p x)"
  by (induction xs) simp_all

text \<open>
  Claim C10.  For a band name that is none of the ten configured names, the band update
  returns the engine exactly as it was: no filter gain and no master gain changes, and
  nothing is raised.
\<close>

theorem unknown_band_noop:
  "bandName \<notin> set (map fst eqFrequencies) \<Longrightarrow> updateEQBand s bandName gainDb = s"
proof -
  assume "bandName \<notin> set (map fst eqFrequencies)"
  then have "findIndex (\<lambda>band. fst band = bandName) eqFrequencies = None"
    unfolding findIndex_None_iff by auto
  then show ?thesis by (simp add: updateEQBand_def)
qed

theorem unknown_band_noop_witness:
  "''presence'' \<notin> set (map fst eqFrequencies)
   \<and> updateEQBand (createAudioGraph (newEngine someRows)) ''presence'' 12 = createAudioGraph (newEngine someRows)"
proof -
  have h: "''presence'' \<notin> set (map fst eqFrequencies)"
    by (simp add: eqFrequencies_def)
  from h unknown_band_noop [OF h] show ?thesis by simp
qed

text \<open>
  Claim C8.  While the engine is not playing, the render callback fills both channel
  arrays with zeros over their whole length and returns the engine unchanged: no generator
  memory is advanced, no draw is consumed, and the script node stays connected.  Stopping
  only clears the playing flag, so a stopped engine keeps its connection and renders
  silence.
\<close>

theorem stopped_render_silence:
  "\<not> isPlaying s \<Longrightarrow>
     generateAudio s outputL outputR r =
       (replicate (length outputL) 0, replicate (length outputR) 0, s, r)
     \<and> noiseStates (fst (snd (snd (generateAudio s outputL outputR r)))) = noiseStates s
     \<and> scriptNodeConnected (fst (snd (snd (generateAudio s outputL outputR r)))) = scriptNodeConnected s
     \<and> \<not> isPlaying (stop s') \<and> scriptNodeConnected (stop s') = scriptNodeConnected s'
     \<and> fst (generateAudio (stop s') outputL outputR r) = replicate (length outputL) 0"
  by (simp add: generateAudio_def stop_def)

theorem stopped_render_silence_witness:
  "\<not> isPlaying (stop (createAudioGraph (newEngine someRows)))
   \<and> generateAudio (stop (createAudioGraph (newEngine someRows))) [1 / 2, - 1 / 4, 1] [1 / 3, 0, - 1] (constDraws (3 / 4)) =
       ([0, 0, 0], [0, 0, 0], stop (createAudioGraph (newEngine someRows)), constDraws (3 / 4))
   \<and> scriptNodeConnected (stop (createAudioGraph (newEngine someRows)))"
proof -
  let ?s = "stop (createAudioGraph (newEngine someRows))"
  have h: "\<not> isPlaying ?s" by (simp add: stop_def)
  have c: "scriptNodeConnected ?s" by (simp add: stop_def createAudioGraph_def)
  from h c stopped_render_silence [OF h, of "[1 / 2, - 1 / 4, 1]" "[1 / 3, 0, - 1]" "constDraws (3 / 4)"]
  show ?thesis by (simp add: numeral_eq_Suc)
qed

text \<open>
  Claim C9.  Selecting a noise type writes the active-type field and nothing else of the
  engine: the memory of every generator (pink rows and counters, brown and red
  integrators, violet previous sample, gray and green filter cells) is what it was, and
  selecting the old type again gives back the old engine.
\<close>

theorem select_noise_type_frame:
  "selectNoiseType s t = s\<lparr>currentNoiseType := t\<rparr>
   \<and> currentNoiseType (selectNoiseType s t) = t
   \<and> noiseStates (selectNoiseType s t) = noiseStates s
   \<and> pink_generators (noiseStates (selectNoiseType s t)) = pink_generators (noiseStates s)
   \<and> pink_counters (noiseStates (selectNoiseType s t)) = pink_counters (noiseStates s)
   \<and> brown_state (noiseStates (selectNoiseType s t)) = brown_state (noiseStates s)
   \<and> red_state (noiseStates (selectNoiseType s t)) = red_state (noiseStates s)
   \<and> violet_prev (noiseStates (selectNoiseType s t)) = violet_prev (noiseStates s)
   \<and> gray_state (noiseStates (selectNoiseType s t)) = gray_state (noiseStates s)
   \<and> green_filterState (noiseStates (selectNoiseType s t)) = green_filterState (noiseStates s)
   \<and> selectNoiseType (selectNoiseType s t) (currentNoiseType s) = s"
  by (simp add: selectNoiseType_def)

section \<open>Brown and red integrators\<close>

lemma unit_draws_tail: "unit_draws r \<Longrightarrow> unit_draws (snd (random r))"
  by (simp add: unit_draws_def random_def)

lemma gentleLimit_bound: "\<bar>st\<bar> \<le> 1.05 \<Longrightarrow> \<bar>gentleLimit st\<bar> \<le> 0.96"
  by (auto simp: gentleLimit_def Let_def sgn_real_def abs_real_def split: if_splits; argo)

lemma brown_step_state:
  "generateBrownNoise ns r =
     (gentleLimit (brown_state ns * 0.999 + (r 0 * 2 - 1) * 0.02) * 0.4,
      ns\<lparr>brown_state := gentleLimit (brown_state ns * 0.999 + (r 0 * 2 - 1) * 0.02)\<rparr>,
      snd (random r))"
  by (simp add: generateBrownNoise_def random_def Let_def)

lemma red_step_state:
  "generateRedNoise ns r =
     ((red_state ns * 0.9995 + (r 0 * 2 - 1) * 0.01) * 0.8,
      ns\<lparr>red_state := red_state ns * 0.9995 + (r 0 * 2 - 1) * 0.01\<rparr>,
      snd (random r))"
  by (simp add: generateRedNoise_def random_def Let_def)

lemma brown_step_bound:
  assumes "unit_draws r" "\<bar>brown_state ns\<bar> \<le> 0.96"
  shows "\<bar>brown_state (fst (snd (generateBrownNoise ns r)))\<bar> \<le> 0.96"
proof -
  have u: "0 \<le> r 0" "r 0 < 1" using assms(1) by (simp_all add: unit_draws_def)
  have "\<bar>brown_state ns * 0.999 + (r 0 * 2 - 1) * 0.02\<bar> \<le> 1.05"
    using u assms(2) by (simp; argo)
  then have "\<bar>gentleLimit (brown_state ns * 0.999 + (r 0 * 2 - 1) * 0.02)\<bar> \<le> 0.96"
    by (rule gentleLimit_bound)
  then show ?thesis by (simp add: brown_step_state)
qed

lemma red_step_bound:
  assumes "unit_draws r" "\<bar>red_state ns\<bar> \<le> 20"
  shows "\<bar>red_state (fst (snd (generateRedNoise ns r)))\<bar> \<le> 20"
proof -
  have u: "0 \<le> r 0" "r 0 < 1" using assms(1) by (simp_all add: unit_draws_def)
  have "\<bar>red_state ns * 0.9995 + (r 0 * 2 - 1) * 0.01\<bar> \<le> 20"
    using u assms(2) by (simp; argo)
  then show ?thesis by (simp add: red_step_state)
qed

lemma brown_run_bound:
  "unit_draws r \<Longrightarrow> \<bar>brown_state ns\<bar> \<le> 0.96 \<Longrightarrow>
     \<bar>brown_state (fst (calls generateBrownNoise n ns r))\<bar> \<le> 0.96"
proof (induction n arbitrary: ns r)
  case 0
  then show ?case by simp
next
  case (Suc n)
  have "\<bar>brown_state (fst (snd (generateBrownNoise ns r)))\<bar> \<le> 0.96"
    using Suc.prems by (rule brown_step_bound)
  moreover have "unit_draws (snd (snd (generateBrownNoise ns r)))"
    using Suc.prems(1) by (simp add: brown_step_state unit_draws_tail)
  ultimately show ?case
    using Suc.IH [of "snd (snd (generateBrownNoise ns r))" "fst (snd (generateBrownNoise ns r))"]
    by (simp add: case_prod_unfold Let_def)
qed

lemma red_run_bound:
  "unit_draws r \<Longrightarrow> \<bar>red_state ns\<bar> \<le> 20 \<Longrightarrow>
     \<bar>red_state (fst (calls generateRedNoise n ns r))\<bar> \<le> 20"
proof (induction n arbitrary: ns r)
  case 0
  then show ?case by simp
next
  case (Suc n)
  have "\<bar>red_state (fst (snd (generateRedNoise ns r)))\<bar> \<le> 20"
    using Suc.prems by (rule red_step_bound)
  moreover have "unit_draws (snd (snd (generateRedNoise ns r)))"
    using Suc.prems(1) by (simp add: red_step_state unit_draws_tail)
  ultimately show ?case
    using Suc.IH [of "snd (snd (generateRedNoise ns r))" "fst (snd (generateRedNoise ns r))"]
    by (simp add: case_prod_unfold Let_def)
qed

lemma random_constDraws: "random (constDraws c) = (c, constDraws c)"
  by (auto simp: random_def constDraws_def)

lemma unit_constDraws: "0 \<le> c \<Longrightarrow> c < 1 \<Longrightarrow> unit_draws (constDraws c)"
  by (simp add: unit_draws_def constDraws_def)

lemma red_const_run:
  "red_state (fst (calls generateRedNoise n ns (constDraws c))) =
     red_state ns * 0.9995 ^ n + 20 * (c * 2 - 1) * (1 - 0.9995 ^ n)"
proof (induction n arbitrary: ns)
  case 0
  then show ?case by simp
next
  case (Suc n)
  have "red_state (fst (calls generateRedNoise (Suc n) ns (constDraws c))) =
      red_state (fst (calls generateRedNoise n
        (ns\<lparr>red_state := red_state ns * 0.9995 + (c * 2 - 1) * 0.01\<rparr>) (constDraws c)))"
    by (simp add: red_step_state random_constDraws) (simp add: constDraws_def)
  also have "\<dots> = (red_state ns * 0.9995 + (c * 2 - 1) * 0.01) * 0.9995 ^ n
      + 20 * (c * 2 - 1) * (1 - 0.9995 ^ n)"
    by (simp add: Suc.IH)
  also have "\<dots> = red_state ns * 0.9995 ^ Suc n + 20 * (c * 2 - 1) * (1 - 0.9995 ^ Suc n)"
    by (simp add: field_simps)
  finally show ?case .
qed

lemma red_const_step:
  fixes x c :: real
  assumes "x = 20 * (c * 2 - 1) * (1 - 0.9995 ^ n)"
  shows "x * 0.9995 + (c * 2 - 1) * 0.01 = 20 * (c * 2 - 1) * (1 - 0.9995 ^ Suc n)"
  unfolding assms by (simp add: field_simps)

lemma leak_pow_100: "(0.9995::real) ^ 100 < 0.952"
proof -
  have "(0.9995::real) ^ 10 \<le> 0.99502" by (simp add: power_divide)
  then have "((0.9995::real) ^ 10) ^ 10 \<le> 0.99502 ^ 10" by (intro power_mono) simp_all
  also have "(0.99502::real) ^ 10 < 0.952" by (simp add: power_divide)
  finally show ?thesis by (simp add: power_mult [symmetric])
qed

lemma fresh_red: "red_state (freshNoiseStates rows) = 0"
  by (simp add: freshNoiseStates_def)

lemma fresh_brown: "brown_state (freshNoiseStates rows) = 0"
  by (simp add: freshNoiseStates_def)

text \<open>
  Claim C3, as the code has it.  The brown generator passes its integrator state through
  the gentle limiter: a state of magnitude above 0.95 keeps its sign and a tenth of its
  excess, a state within 0.95 is kept.  With draws from the unit interval a brown state
  within 0.96 stays within 0.96 over any number of calls.  The red generator stores the
  leaky-integrator update as it is; with draws from the unit interval a red state within
  20 stays within 20 over any number of calls, by the leak alone.
\<close>

theorem integrator_states_bounded:
  "brown_state (fst (snd (generateBrownNoise ns r))) =
      gentleLimit (brown_state ns * 0.999 + (r 0 * 2 - 1) * 0.02)
   \<and> (0.95 < \<bar>st\<bar> \<longrightarrow> gentleLimit st = sgn st * (0.95 + (\<bar>st\<bar> - 0.95) * 0.1))
   \<and> (\<bar>st\<bar> \<le> 0.95 \<longrightarrow> gentleLimit st = st)
   \<and> (unit_draws r \<and> \<bar>brown_state ns\<bar> \<le> 0.96 \<longrightarrow>
        \<bar>brown_state (fst (calls generateBrownNoise n ns r))\<bar> \<le> 0.96)
   \<and> red_state (fst (snd (generateRedNoise ns r))) = red_state ns * 0.9995 + (r 0 * 2 - 1) * 0.01
   \<and> (unit_draws r \<and> \<bar>red_state ns\<bar> \<le> 20 \<longrightarrow>
        \<bar>red_state (fst (calls generateRedNoise n ns r))\<bar> \<le> 20)"
  using brown_run_bound [of r ns n] red_run_bound [of r ns n]
  by (simp add: brown_step_state red_step_state gentleLimit_def)

theorem integrator_states_bounded_witness:
  "unit_draws (constDraws (199 / 200))
   \<and> gentleLimit (24 / 25) = 951 / 1000 \<and> gentleLimit (- 1 / 2) = - 1 / 2
   \<and> \<bar>brown_state (fst (calls generateBrownNoise 1000 (freshNoiseStates someRows) (constDraws (199 / 200))))\<bar> \<le> 0.96
   \<and> \<bar>red_state (fst (calls generateRedNoise 1000 (freshNoiseStates someRows) (constDraws (199 / 200))))\<bar> \<le> 20"
proof -
  have u: "unit_draws (constDraws (199 / 200))" by (simp add: unit_constDraws)
  from integrator_states_bounded [of "freshNoiseStates someRows" "constDraws (199 / 200)" "24 / 25" 1000] u
  have a: "gentleLimit (24 / 25) = 951 / 1000"
    and b: "\<bar>brown_state (fst (calls generateBrownNoise 1000 (freshNoiseStates someRows) (constDraws (199 / 200))))\<bar> \<le> 0.96"
    and c: "\<bar>red_state (fst (calls generateRedNoise 1000 (freshNoiseStates someRows) (constDraws (199 / 200))))\<bar> \<le> 20"
    by (simp_all add: fresh_red fresh_brown)
  from integrator_states_bounded [of "freshNoiseStates someRows" "constDraws (199 / 200)" "- 1 / 2" 1000]
  have d: "gentleLimit (- 1 / 2) = - 1 / 2" by simp
  from u a b c d show ?thesis by simp
qed

text \<open>
  Claim C3 as stated fails for the red generator: after 99 calls on draws of 0.995 the
  next update leaves the integrator above 0.95, and the stored state is that update, not
  its compression.
\<close>

theorem red_state_not_clamped:
  "unit_draws (constDraws (199 / 200))
   \<and> 0.95 < \<bar>red_state redAfter99 * 0.9995 + (199 / 200 * 2 - 1) * 0.01\<bar>
   \<and> red_state (fst (snd (generateRedNoise redAfter99 (constDraws (199 / 200)))))
        = red_state redAfter99 * 0.9995 + (199 / 200 * 2 - 1) * 0.01
   \<and> red_state (fst (snd (generateRedNoise redAfter99 (constDraws (199 / 200)))))
        \<noteq> sgn (red_state redAfter99 * 0.9995 + (199 / 200 * 2 - 1) * 0.01)
           * (0.95 + (\<bar>red_state redAfter99 * 0.9995 + (199 / 200 * 2 - 1) * 0.01\<bar> - 0.95) * 0.1)"
proof -
  define st where "st = red_state redAfter99 * 0.9995 + (199 / 200 * 2 - 1) * 0.01"
  have "red_state redAfter99 = 20 * (199 / 200 * 2 - 1) * (1 - 0.9995 ^ 99)"
    by (simp only: redAfter99_def red_const_run fresh_red mult_zero_left add_0)
  then have "st = 20 * (199 / 200 * 2 - 1) * (1 - 0.9995 ^ Suc 99)"
    unfolding st_def by (rule red_const_step)
  then have "st = 20 * (199 / 200 * 2 - 1) * (1 - 0.9995 ^ 100)" by simp
  then have big: "0.95 < st" using leak_pow_100 by simp
  then have ne: "st \<noteq> sgn st * (0.95 + (\<bar>st\<bar> - 0.95) * 0.1)"
    by (simp add: sgn_real_def; argo)
  have step: "red_state (fst (snd (generateRedNoise redAfter99 (constDraws (199 / 200))))) = st"
    by (simp add: red_step_state st_def constDraws_def)
  have u: "unit_draws (constDraws (199 / 200))" by (simp add: unit_constDraws)
  from big have abs: "0.95 < \<bar>st\<bar>" by simp
  from u abs step ne show ?thesis unfolding st_def by simp
qed

section \<open>Unrecognised noise types\<close>

lemma fresh_unfold:
  "freshNoiseStates rows =
     \<lparr>brown_state = 0, pink_generators = rows, pink_counters = [0, 0, 0, 0, 0, 0, 0],
      violet_state = 0, violet_prev = 0, gray_state = [0, 0, 0, 0],
      red_state = 0, green_filterState = [0, 0, 0, 0, 0, 0]\<rparr>"
  by (simp add: freshNoiseStates_def numeral_eq_Suc)

lemma newNoiseGenerator_unfold:
  "newNoiseGenerator rows =
     \<lparr>ng_currentNoiseType = ''pink'', brownNoiseState = 0, pinkNoiseState = rows,
      pinkNoiseCounters = [0, 0, 0, 0, 0, 0, 0], greenNoiseBuffer = None, blueNoisePrev = None\<rparr>"
  by (simp add: newNoiseGenerator_def numeral_eq_Suc)

lemma white_const: "generateWhiteNoise ns (constDraws c) = ((c * 2 - 1) * 0.3, ns, constDraws c)"
  by (simp add: generateWhiteNoise_def random_constDraws)

lemma pinkRows_fresh:
  "pinkRows (enumerate 0 updateRates) [0, 0, 0, 0, 0, 0, 0] [0, 0, 0, 0, 0, 0, 0] 0 (constDraws (3 / 4)) =
     (7 / 2, [1 / 2, 1 / 2, 1 / 2, 1 / 2, 1 / 2, 1 / 2, 1 / 2], [1, 1, 1, 1, 1, 1, 1], constDraws (3 / 4))"
  by (simp add: updateRates_def random_constDraws)

text \<open>
  Claim C7, as the code has it.  For a type that is none of its eight case labels, the
  render loop of the engine generates a white-noise sample, exactly as for the type white.
  For a type that is none of its five case labels, the continuous loop of the stand-alone
  generator generates a pink-noise sample.
\<close>

theorem unrecognized_type_fallback:
  "(t \<notin> set recognizedTypes \<longrightarrow> switchNoiseType t ns r = generateWhiteNoise ns r)
   \<and> (ng_currentNoiseType g \<notin> set continuousTypes \<longrightarrow>
        continuousSwitch g r = generatePinkNoiseSample g r)"
  by (simp add: switchNoiseType_def continuousSwitch_def recognizedTypes_def
        continuousTypes_def Let_def)

theorem unrecognized_type_fallback_witness:
  "''purple'' \<notin> set recognizedTypes \<and> ''purple'' \<notin> set continuousTypes
   \<and> switchNoiseType ''purple'' (freshNoiseStates [0, 0, 0, 0, 0, 0, 0]) (constDraws (3 / 4))
       = (3 / 20, freshNoiseStates [0, 0, 0, 0, 0, 0, 0], constDraws (3 / 4))
   \<and> fst (continuousSwitch ((newNoiseGenerator [0, 0, 0, 0, 0, 0, 0])\<lparr>ng_currentNoiseType := ''purple''\<rparr>)
              (constDraws (3 / 4))) = 21 / 40"
proof -
  let ?g = "(newNoiseGenerator [0, 0, 0, 0, 0, 0, 0])\<lparr>ng_currentNoiseType := ''purple''\<rparr>"
  have h: "''purple'' \<notin> set recognizedTypes" by (simp add: recognizedTypes_def)
  have k: "ng_currentNoiseType ?g \<notin> set continuousTypes" by (simp add: continuousTypes_def)
  from h unrecognized_type_fallback [of "''purple''" "freshNoiseStates [0, 0, 0, 0, 0, 0, 0]" "constDraws (3 / 4)"]
  have a: "switchNoiseType ''purple'' (freshNoiseStates [0, 0, 0, 0, 0, 0, 0]) (constDraws (3 / 4))
       = (3 / 20, freshNoiseStates [0, 0, 0, 0, 0, 0, 0], constDraws (3 / 4))"
    by (simp add: white_const)
  from k unrecognized_type_fallback [of _ _ "constDraws (3 / 4)" ?g]
  have "continuousSwitch ?g (constDraws (3 / 4)) = generatePinkNoiseSample ?g (constDraws (3 / 4))"
    by simp
  then have b: "fst (continuousSwitch ?g (constDraws (3 / 4))) = 21 / 40"
    by (simp add: generatePinkNoiseSample_def newNoiseGenerator_unfold pinkRows_fresh)
  from h k a b show ?thesis by simp
qed

text \<open>
  Claim C7 as stated fails in the engine: for the type purple, on fresh generator memory
  and draws of 0.75, the sample is the white one (0.15), not the pink one (0.175), and the
  pink counters are not advanced.
\<close>

theorem fallback_not_pink_in_engine:
  "''purple'' \<notin> set recognizedTypes
   \<and> fst (switchNoiseType ''purple'' (freshNoiseStates [0, 0, 0, 0, 0, 0, 0]) (constDraws (3 / 4))) = 3 / 20
   \<and> fst (generatePinkNoise (freshNoiseStates [0, 0, 0, 0, 0, 0, 0]) (constDraws (3 / 4))) = 7 / 40
   \<and> pink_counters (fst (snd (switchNoiseType ''purple'' (freshNoiseStates [0, 0, 0, 0, 0, 0, 0]) (constDraws (3 / 4)))))
        = [0, 0, 0, 0, 0, 0, 0]
   \<and> pink_counters (fst (snd (generatePinkNoise (freshNoiseStates [0, 0, 0, 0, 0, 0, 0]) (constDraws (3 / 4)))))
        = [1, 1, 1, 1, 1, 1, 1]
   \<and> switchNoiseType ''purple'' (freshNoiseStates [0, 0, 0, 0, 0, 0, 0]) (constDraws (3 / 4))
       \<noteq> generatePinkNoise (freshNoiseStates [0, 0, 0, 0, 0, 0, 0]) (constDraws (3 / 4))"
proof -
  have w: "switchNoiseType ''purple'' (freshNoiseStates [0, 0, 0, 0, 0, 0, 0]) (constDraws (3 / 4))
      = (3 / 20, freshNoiseStates [0, 0, 0, 0, 0, 0, 0], constDraws (3 / 4))"
    by (simp add: switchNoiseType_def white_const)
  have p: "generatePinkNoise (freshNoiseStates [0, 0, 0, 0, 0, 0, 0]) (constDraws (3 / 4))
      = (7 / 40,
         (freshNoiseStates [0, 0, 0, 0, 0, 0, 0])
           \<lparr>pink_generators := [1 / 2, 1 / 2, 1 / 2, 1 / 2, 1 / 2, 1 / 2, 1 / 2],
            pink_counters := [1, 1, 1, 1, 1, 1, 1]\<rparr>,
         constDraws (3 / 4))"
    by (simp add: generatePinkNoise_def fresh_unfold pinkRows_fresh)
  show ?thesis
    unfolding w p by (simp add: recognizedTypes_def fresh_unfold)
qed

section \<open>Reverb mix\<close>

text \<open>
  Claim C6, as the code has it.  The stand-alone effects class sets, for a mix value in
  the unit interval and with both gain nodes present, the dry gain to the square root of
  one minus the mix and the wet gain to the square root of the mix, so that the squares of
  the two gains add up to one.  The reverb knob of the engine, at a value \<open>v\<close> out of 100
  and with both gain nodes present, sets the wet gain to 0.8 times \<open>v / 100\<close> and the dry
  gain to one minus 0.5 times \<open>v / 100\<close>.
\<close>

theorem reverb_mix_laws:
  "(ae_dryGain a \<noteq> None \<and> ae_reverbGain a \<noteq> None \<and> 0 \<le> wet \<and> wet \<le> 1 \<longrightarrow>
      ae_dryGain (setReverbLevel a wet) = Some (sqrt (1 - wet))
      \<and> ae_reverbGain (setReverbLevel a wet) = Some (sqrt wet)
      \<and> (sqrt (1 - wet))\<^sup>2 + (sqrt wet)\<^sup>2 = 1)
   \<and> (reverbGain s \<noteq> None \<and> dryGain s \<noteq> None \<longrightarrow>
      reverbGain (updateEffect s ''reverb'' v) = Some (v / 100 * 0.8)
      \<and> dryGain (updateEffect s ''reverb'' v) = Some (1 - v / 100 * 0.5))"
  by (simp add: setReverbLevel_def updateEffect_def Let_def)

theorem reverb_mix_laws_witness:
  "ae_dryGain (setReverbLevel \<lparr>reverbLevel = 2 / 5, ae_dryGain = Some (3 / 5), ae_reverbGain = Some (2 / 5)\<rparr> 1) = Some 0
   \<and> ae_reverbGain (setReverbLevel \<lparr>reverbLevel = 2 / 5, ae_dryGain = Some (3 / 5), ae_reverbGain = Some (2 / 5)\<rparr> 1) = Some 1
   \<and> reverbGain (updateEffect (createAudioGraph (newEngine someRows)) ''reverb'' 50) = Some (2 / 5)
   \<and> dryGain (updateEffect (createAudioGraph (newEngine someRows)) ''reverb'' 50) = Some (3 / 4)"
proof -
  have n: "reverbGain (createAudioGraph (newEngine someRows)) \<noteq> None \<and> dryGain (createAudioGraph (newEngine someRows)) \<noteq> None"
    by (simp add: createAudioGraph_def)
  from n reverb_mix_laws [of "\<lparr>reverbLevel = 2 / 5, ae_dryGain = Some (3 / 5), ae_reverbGain = Some (2 / 5)\<rparr>" 1
      "createAudioGraph (newEngine someRows)" 50]
  show ?thesis by simp
qed

text \<open>
  Claim C6 as stated fails in the engine: at the knob value 100 (mix 1) the wet gain is
  0.8, not the square root of 1, and the dry gain is 0.5, not the square root of 0.
\<close>

theorem reverb_not_equal_power_in_engine:
  "reverbGain (updateEffect (createAudioGraph (newEngine someRows)) ''reverb'' 100) = Some (4 / 5)
   \<and> dryGain (updateEffect (createAudioGraph (newEngine someRows)) ''reverb'' 100) = Some (1 / 2)
   \<and> reverbGain (updateEffect (createAudioGraph (newEngine someRows)) ''reverb'' 100) \<noteq> Some (sqrt (100 / 100))
   \<and> dryGain (updateEffect (createAudioGraph (newEngine someRows)) ''reverb'' 100) \<noteq> Some (sqrt (1 - 100 / 100))"
  by (simp add: updateEffect_def createAudioGraph_def)

section \<open>Saturation curve\<close>

lemma saturationPoint_alt:
  "saturationPoint a x = (3 + a * 20) * (pi / 9) * (x / (pi + a * \<bar>x\<bar>))"
  by (simp add: saturationPoint_def deg_def)

lemma saturation_den_pos: "0 \<le> a \<Longrightarrow> 0 < pi + a * \<bar>x\<bar>"
  by (simp add: add_pos_nonneg)

lemma saturation_ratio_mono:
  assumes a: "0 \<le> a" and xy: "x \<le> y"
  shows "x / (pi + a * \<bar>x\<bar>) \<le> y / (pi + a * \<bar>y\<bar>)"
proof -
  have dx: "0 < pi + a * \<bar>x\<bar>" and dy: "0 < pi + a * \<bar>y\<bar>"
    using a by (simp_all add: saturation_den_pos)
  have cross: "x * \<bar>y\<bar> \<le> y * \<bar>x\<bar>"
  proof (cases "0 \<le> x")
    case True
    then show ?thesis using xy by (simp add: mult.commute)
  next
    case False
    show ?thesis
    proof (cases "0 \<le> y")
      case True
      have "x * y \<le> 0" using False True by (intro mult_nonpos_nonneg) simp_all
      moreover have "0 \<le> y * (- x)" using False True by (intro mult_nonneg_nonneg) simp_all
      ultimately show ?thesis using False True by simp
    next
      case False
      then show ?thesis using xy \<open>\<not> 0 \<le> x\<close> by (simp add: mult.commute)
    qed
  qed
  have "x * (pi + a * \<bar>y\<bar>) = pi * x + a * (x * \<bar>y\<bar>)" by (simp add: algebra_simps)
  also have "\<dots> \<le> pi * y + a * (y * \<bar>x\<bar>)"
    using xy a cross by (intro add_mono mult_left_mono) simp_all
  also have "\<dots> = y * (pi + a * \<bar>x\<bar>)" by (simp add: algebra_simps)
  finally show ?thesis using dx dy by (simp add: frac_le_eq field_simps)
qed

lemma saturationPoint_mono:
  assumes "0 \<le> a" "x \<le> y"
  shows "saturationPoint a x \<le> saturationPoint a y"
  unfolding saturationPoint_alt
  using assms by (intro mult_left_mono saturation_ratio_mono) simp_all

lemma saturationPoint_odd: "saturationPoint a (- x) = - saturationPoint a x"
  by (simp add: saturationPoint_def)

lemma saturationPoint_bound:
  assumes "0 \<le> a" "\<bar>x\<bar> \<le> 1"
  shows "\<bar>saturationPoint a x\<bar> \<le> saturationPoint a 1"
proof -
  have "saturationPoint a x \<le> saturationPoint a 1"
    using assms by (intro saturationPoint_mono) simp_all
  moreover have "saturationPoint a (- 1) \<le> saturationPoint a x"
    using assms by (intro saturationPoint_mono) simp_all
  ultimately show ?thesis by (simp add: saturationPoint_odd abs_le_iff)
qed

lemma saturationPoint_one:
  assumes "0 \<le> a"
  shows "saturationPoint a 1 = (3 + 20 * a) * pi / (9 * (pi + a))"
proof -
  have "pi + a \<noteq> 0" using assms pi_gt_zero by (simp add: add_pos_nonneg less_imp_neq [symmetric])
  then show ?thesis by (simp add: saturationPoint_def deg_def field_simps)
qed

lemma saturation_threshold:
  assumes "0 \<le> a"
  shows "saturationPoint a 1 \<le> 1 \<longleftrightarrow> a \<le> 6 * pi / (20 * pi - 9)"
proof -
  have p: "0 < 20 * pi - 9" using pi_ge_two by simp
  have d: "0 < 9 * (pi + a)" using assms pi_ge_two by simp
  have "saturationPoint a 1 \<le> 1 \<longleftrightarrow> (3 + 20 * a) * pi \<le> 9 * (pi + a)"
    using d by (simp add: saturationPoint_one assms pos_divide_le_eq)
  also have "\<dots> \<longleftrightarrow> a * (20 * pi - 9) \<le> 6 * pi" by (simp add: algebra_simps)
  also have "\<dots> \<longleftrightarrow> a \<le> 6 * pi / (20 * pi - 9)" using p by (simp add: pos_le_divide_eq)
  finally show ?thesis .
qed

lemma curveX_range: "i < samples \<Longrightarrow> - 1 \<le> curveX i \<and> curveX i \<le> 1"
  by (simp add: curveX_def samples_def field_simps)

lemma curveX_mono: "i \<le> j \<Longrightarrow> curveX i \<le> curveX j"
  by (simp add: curveX_def samples_def field_simps)

lemma nth_saturationCurve:
  "i < samples \<Longrightarrow> createSaturationCurve a ! i = saturationPoint a (curveX i)"
  by (simp add: createSaturationCurve_def)


lemma saturation_knob:
  "saturation s \<noteq> None \<Longrightarrow>
     saturation (updateEffect s ''saturation'' v) =
       Some (1 + v / 100 * 1.5, createSaturationCurve (v / 100 * 0.8))"
  by (simp add: updateEffect_def Let_def)

lemma saturation_ratio_strict:
  assumes a: "0 \<le> a" and xy: "x < y"
  shows "x / (pi + a * \<bar>x\<bar>) < y / (pi + a * \<bar>y\<bar>)"
proof -
  have dx: "0 < pi + a * \<bar>x\<bar>" and dy: "0 < pi + a * \<bar>y\<bar>"
    using a by (simp_all add: saturation_den_pos)
  have cross: "x * \<bar>y\<bar> \<le> y * \<bar>x\<bar>"
  proof (cases "0 \<le> x")
    case True
    then show ?thesis using xy by (simp add: mult.commute)
  next
    case False
    show ?thesis
    proof (cases "0 \<le> y")
      case True
      have "x * y \<le> 0" using False True by (intro mult_nonpos_nonneg) simp_all
      moreover have "0 \<le> y * (- x)" using False True by (intro mult_nonneg_nonneg) simp_all
      ultimately show ?thesis using False True by simp
    next
      case False
      then show ?thesis using xy \<open>\<not> 0 \<le> x\<close> by (simp add: mult.commute)
    qed
  qed
  have "x * (pi + a * \<bar>y\<bar>) = pi * x + a * (x * \<bar>y\<bar>)" by (simp add: algebra_simps)
  also have "\<dots> < pi * y + a * (y * \<bar>x\<bar>)"
    using xy a cross by (intro add_less_le_mono mult_left_mono) simp_all
  also have "\<dots> = y * (pi + a * \<bar>x\<bar>)" by (simp add: algebra_simps)
  finally show ?thesis using dx dy by (simp add: frac_less_eq field_simps)
qed

lemma saturationPoint_strict_mono:
  assumes "0 \<le> a" "x < y"
  shows "saturationPoint a x < saturationPoint a y"
proof -
  have "0 < (3 + a * 20) * (pi / 9)" using assms(1) by (simp add: add_pos_nonneg)
  then show ?thesis
    unfolding saturationPoint_alt
    using saturation_ratio_strict [OF assms] by (simp only: mult_less_cancel_left_pos)
qed

lemma curveX_mirror: "0 < i \<Longrightarrow> i < samples \<Longrightarrow> curveX (samples - i) = - curveX i"
  by (simp add: curveX_def samples_def field_simps)

lemma curveX_zero: "curveX 0 = - 1"
  by (simp add: curveX_def)

lemma curveX_last: "curveX (samples - 1) < 1"
  by (simp add: curveX_def samples_def)

lemma length_saturationCurve: "length (createSaturationCurve a) = samples"
  by (simp add: createSaturationCurve_def)

lemma saturationCurve_mirror:
  assumes "0 < i" "i < samples"
  shows "createSaturationCurve a ! (samples - i) = - createSaturationCurve a ! i"
proof -
  have "samples - i < samples" using assms by simp
  then show ?thesis
    using assms by (simp add: nth_saturationCurve curveX_mirror saturationPoint_odd)
qed

lemma saturationCurve_first: "createSaturationCurve a ! 0 = - saturationPoint a 1"
  by (simp add: nth_saturationCurve samples_def curveX_zero saturationPoint_odd)

lemma saturationCurve_ends:
  assumes "0 \<le> a"
  shows "createSaturationCurve a ! (samples - 1) < - createSaturationCurve a ! 0"
proof -
  have "createSaturationCurve a ! (samples - 1) = saturationPoint a (curveX (samples - 1))"
    by (simp add: nth_saturationCurve samples_def)
  also have "\<dots> < saturationPoint a 1"
    using assms curveX_last by (rule saturationPoint_strict_mono)
  finally show ?thesis by (simp add: saturationCurve_first)
qed

lemma waveShaper_ends:
  assumes "0 < length curve"
  shows "waveShaper curve 1 = curve ! (length curve - 1)" "waveShaper curve (- 1) = curve ! 0"
proof -
  show "waveShaper curve (- 1) = curve ! 0" by (simp add: waveShaper_def)
  show "waveShaper curve 1 = curve ! (length curve - 1)"
  proof (cases "length curve = 1")
    case True
    then show ?thesis by (simp add: waveShaper_def)
  next
    case False
    then have "1 < length curve" using assms by (cases "length curve") auto
    then show ?thesis by (simp add: waveShaper_def)
  qed
qed


text \<open>
  Claim C5, as the code has it.  For every drive amount that is not negative (the knob
  reaches the amounts from 0 to 0.8), the expression the table is filled from is
  non-decreasing and odd in \<open>x\<close>, and on the inputs from -1 to 1 its magnitude is at most
  its value at 1, which is \<open>(3 + 20 a) pi / (9 (pi + a))\<close>.  That value is at most 1
  exactly when the amount is at most \<open>6 pi / (20 pi - 9)\<close>; in particular for amounts up
  to 0.3 every input from -1 to 1 maps into the interval from -1 to 1.  The table of 44100
  entries samples the expression at points of that interval: it is non-decreasing, every
  entry has magnitude at most the value at 1, and the first entry, computed at \<open>x = -1\<close>,
  is minus that value.  The table is odd about its centre only: entry \<open>44100 - i\<close> is
  minus entry \<open>i\<close> for every \<open>i\<close> from 1 to 44099, but the first entry has no mirror
  image, and the last entry, computed at \<open>x = 1 - 2 / 44100\<close>, is strictly less than minus
  the first; so the shaper's output for the input 1 is strictly less than minus its output
  for the input -1.  The saturation knob at value \<open>v\<close> installs the table for the amount
  \<open>0.8 v / 100\<close>.
\<close>

theorem saturation_table_shape:
  "0 \<le> a \<longrightarrow>
     (\<forall>x y. x \<le> y \<longrightarrow> saturationPoint a x \<le> saturationPoint a y)
     \<and> (\<forall>x. saturationPoint a (- x) = - saturationPoint a x)
     \<and> (\<forall>x. \<bar>x\<bar> \<le> 1 \<longrightarrow> \<bar>saturationPoint a x\<bar> \<le> saturationPoint a 1)
     \<and> saturationPoint a 1 = (3 + 20 * a) * pi / (9 * (pi + a))
     \<and> (saturationPoint a 1 \<le> 1 \<longleftrightarrow> a \<le> 6 * pi / (20 * pi - 9))
     \<and> (a \<le> 0.3 \<longrightarrow> (\<forall>x. \<bar>x\<bar> \<le> 1 \<longrightarrow> \<bar>saturationPoint a x\<bar> \<le> 1))
     \<and> length (createSaturationCurve a) = samples
     \<and> (\<forall>i < samples. createSaturationCurve a ! i = saturationPoint a (curveX i)
            \<and> \<bar>curveX i\<bar> \<le> 1
            \<and> \<bar>createSaturationCurve a ! i\<bar> \<le> saturationPoint a 1)
     \<and> (\<forall>i j. i \<le> j \<and> j < samples \<longrightarrow>
            createSaturationCurve a ! i \<le> createSaturationCurve a ! j)
     \<and> (\<forall>i. 0 < i \<and> i < samples \<longrightarrow>
            createSaturationCurve a ! (samples - i) = - createSaturationCurve a ! i)
     \<and> createSaturationCurve a ! 0 = - saturationPoint a 1
     \<and> createSaturationCurve a ! (samples - 1) < - createSaturationCurve a ! 0
     \<and> waveShaper (createSaturationCurve a) 1 < - waveShaper (createSaturationCurve a) (- 1)
     \<and> (saturation s \<noteq> None \<longrightarrow>
            saturation (updateEffect s ''saturation'' v) =
              Some (1 + v / 100 * 1.5, createSaturationCurve (v / 100 * 0.8)))"
proof (intro impI conjI allI)
  assume a: "0 \<le> a"
  show "saturationPoint a x \<le> saturationPoint a y" if "x \<le> y" for x y
    using a that by (rule saturationPoint_mono)
  show "saturationPoint a (- x) = - saturationPoint a x" for x
    by (rule saturationPoint_odd)
  show "\<bar>saturationPoint a x\<bar> \<le> saturationPoint a 1" if "\<bar>x\<bar> \<le> 1" for x
    using a that by (rule saturationPoint_bound)
  show "saturationPoint a 1 = (3 + 20 * a) * pi / (9 * (pi + a))"
    using a by (rule saturationPoint_one)
  show "saturationPoint a 1 \<le> 1 \<longleftrightarrow> a \<le> 6 * pi / (20 * pi - 9)"
    using a by (rule saturation_threshold)
  show "\<bar>saturationPoint a x\<bar> \<le> 1" if small: "a \<le> 0.3" and x: "\<bar>x\<bar> \<le> 1" for x
  proof -
    have "0 < 20 * pi - 9" using pi_ge_two by simp
    moreover have "a * (20 * pi - 9) \<le> 6 * pi"
    proof -
      have "a * (20 * pi - 9) \<le> 0.3 * (20 * pi - 9)"
        using small pi_ge_two by (intro mult_right_mono) simp_all
      also have "\<dots> \<le> 6 * pi" by simp
      finally show ?thesis .
    qed
    ultimately have "a \<le> 6 * pi / (20 * pi - 9)" by (simp add: pos_le_divide_eq)
    then have "saturationPoint a 1 \<le> 1" using a by (simp add: saturation_threshold)
    then show ?thesis using saturationPoint_bound [OF a x] by simp
  qed
  show "length (createSaturationCurve a) = samples"
    by (rule length_saturationCurve)
  show "createSaturationCurve a ! i = saturationPoint a (curveX i)" if "i < samples" for i
    using that by (rule nth_saturationCurve)
  show x1: "\<bar>curveX i\<bar> \<le> 1" if "i < samples" for i
    using curveX_range [OF that] by (simp add: abs_le_iff)
  show "\<bar>createSaturationCurve a ! i\<bar> \<le> saturationPoint a 1" if "i < samples" for i
    using saturationPoint_bound [OF a x1 [OF that]] that by (simp add: nth_saturationCurve)
  show "createSaturationCurve a ! i \<le> createSaturationCurve a ! j" if "i \<le> j \<and> j < samples" for i j
    using that a by (simp add: nth_saturationCurve saturationPoint_mono curveX_mono)
  show "createSaturationCurve a ! (samples - i) = - createSaturationCurve a ! i"
    if "0 < i \<and> i < samples" for i
    using that by (simp add: saturationCurve_mirror)
  show "createSaturationCurve a ! 0 = - saturationPoint a 1"
    by (rule saturationCurve_first)
  show e: "createSaturationCurve a ! (samples - 1) < - createSaturationCurve a ! 0"
    using a by (rule saturationCurve_ends)
  have "0 < length (createSaturationCurve a)"
    by (simp add: length_saturationCurve samples_def)
  then show "waveShaper (createSaturationCurve a) 1 < - waveShaper (createSaturationCurve a) (- 1)"
    using e by (simp add: waveShaper_ends length_saturationCurve)
  show "saturation (updateEffect s ''saturation'' v) =
      Some (1 + v / 100 * 1.5, createSaturationCurve (v / 100 * 0.8))" if "saturation s \<noteq> None"
    using that by (rule saturation_knob)
qed

theorem saturation_table_shape_witness:
  "saturationPoint (1 / 5) (1 / 2) \<le> saturationPoint (1 / 5) 1
   \<and> \<bar>saturationPoint (1 / 5) (1 / 2)\<bar> \<le> 1
   \<and> createSaturationCurve (1 / 5) ! 0 = saturationPoint (1 / 5) (- 1)
   \<and> \<bar>createSaturationCurve (1 / 5) ! 0\<bar> \<le> saturationPoint (1 / 5) 1
   \<and> createSaturationCurve (1 / 5) ! 0 \<le> createSaturationCurve (1 / 5) ! 1
   \<and> createSaturationCurve (1 / 5) ! 44099 = - createSaturationCurve (1 / 5) ! 1
   \<and> createSaturationCurve (1 / 5) ! 22050 = 0
   \<and> createSaturationCurve (1 / 5) ! 44099 < - createSaturationCurve (1 / 5) ! 0
   \<and> saturation (updateEffect (createAudioGraph (newEngine someRows)) ''saturation'' 25) =
        Some (11 / 8, createSaturationCurve (1 / 5))"
proof -
  have n: "saturation (createAudioGraph (newEngine someRows)) \<noteq> None"
    by (simp add: createAudioGraph_def)
  have c: "curveX 0 = - 1" by (simp add: curveX_def)
  have i: "(0::nat) < samples" "(1::nat) < samples" "(22050::nat) < samples"
    "samples - 1 = 44099" "samples - 22050 = 22050"
    by (simp_all add: samples_def)
  have h: "(0::real) \<le> 1 / 5" "(1 / 5 :: real) \<le> 0.3" "(1 / 2 :: real) \<le> 1" "\<bar>1 / 2 :: real\<bar> \<le> 1"
    by simp_all
  note t = saturation_table_shape [of "1 / 5" "createAudioGraph (newEngine someRows)" 25, rule_format, OF h(1)]
  have 1: "saturationPoint (1 / 5) (1 / 2) \<le> saturationPoint (1 / 5) 1"
    using t h(3) by blast
  have 2: "\<bar>saturationPoint (1 / 5) (1 / 2)\<bar> \<le> 1"
    using t h(2) h(4) by blast
  have 3: "createSaturationCurve (1 / 5) ! 0 = saturationPoint (1 / 5) (- 1)"
    using t i(1) c by metis
  have 4: "createSaturationCurve (1 / 5) ! 0 \<le> createSaturationCurve (1 / 5) ! 1"
    using t i(2) by (metis zero_le)
  have 5: "saturation (updateEffect (createAudioGraph (newEngine someRows)) ''saturation'' 25) =
        Some (11 / 8, createSaturationCurve (1 / 5))"
    using t n by simp
  have 6: "\<bar>createSaturationCurve (1 / 5) ! 0\<bar> \<le> saturationPoint (1 / 5) 1"
    using t i(1) by blast
  have "createSaturationCurve (1 / 5) ! (samples - 1) = - createSaturationCurve (1 / 5) ! 1"
    using t i(2) by (metis zero_less_one)
  then have 7: "createSaturationCurve (1 / 5) ! 44099 = - createSaturationCurve (1 / 5) ! 1"
    by (simp only: i(4))
  have "createSaturationCurve (1 / 5) ! (samples - 22050) = - createSaturationCurve (1 / 5) ! 22050"
    using t i(3) by (metis zero_less_numeral)
  then have 8: "createSaturationCurve (1 / 5) ! 22050 = 0"
    unfolding i(5) by simp
  have "createSaturationCurve (1 / 5) ! (samples - 1) < - createSaturationCurve (1 / 5) ! 0"
    using t by blast
  then have 9: "createSaturationCurve (1 / 5) ! 44099 < - createSaturationCurve (1 / 5) ! 0"
    by (simp only: i(4))
  from 1 2 3 4 5 6 7 8 9 show ?thesis by blast
qed

text \<open>
  Claim C5 as stated fails in two ways at the top of the knob.  At the value 100 the
  installed table is the one for the amount 0.8; its first entry, computed at \<open>x = -1\<close>
  and the shaper's output for the input -1, is below -1; and its last entry, the shaper's
  output for the input 1, is not minus the first.
\<close>

theorem saturation_curve_not_bounded_not_odd:
  "saturation (updateEffect (createAudioGraph (newEngine someRows)) ''saturation'' 100) =
      Some (5 / 2, createSaturationCurve (4 / 5))
   \<and> curveX 0 = - 1
   \<and> createSaturationCurve (4 / 5) ! 0 = saturationPoint (4 / 5) (curveX 0)
   \<and> saturationPoint (4 / 5) (curveX 0) < - 1
   \<and> waveShaper (createSaturationCurve (4 / 5)) (- 1) < - 1
   \<and> createSaturationCurve (4 / 5) ! 44099 \<noteq> - createSaturationCurve (4 / 5) ! 0
   \<and> waveShaper (createSaturationCurve (4 / 5)) 1 \<noteq> - waveShaper (createSaturationCurve (4 / 5)) (- 1)"
proof -
  have c: "curveX 0 = - 1" by (simp add: curveX_def)
  have k: "saturation (updateEffect (createAudioGraph (newEngine someRows)) ''saturation'' 100) =
      Some (5 / 2, createSaturationCurve (4 / 5))"
    by (simp add: saturation_knob createAudioGraph_def)
  have t: "createSaturationCurve (4 / 5) ! 0 = saturationPoint (4 / 5) (curveX 0)"
    by (simp add: nth_saturationCurve samples_def)
  have "1 < saturationPoint (4 / 5) 1"
  proof -
    have "9 * (pi + 4 / 5) < (3 + 20 * (4 / 5)) * pi" using pi_ge_two by simp
    moreover have "0 < 9 * (pi + 4 / 5)" using pi_ge_two by simp
    ultimately have "1 < (3 + 20 * (4 / 5)) * pi / (9 * (pi + 4 / 5))"
      by (simp only: pos_less_divide_eq mult_1)
    then show ?thesis by (simp add: saturationPoint_one)
  qed
  then have b: "saturationPoint (4 / 5) (- 1) < - 1" by (simp add: saturationPoint_odd)
  have l: "0 < length (createSaturationCurve (4 / 5))" "length (createSaturationCurve (4 / 5)) - 1 = 44099"
    by (simp_all add: length_saturationCurve samples_def)
  have w1: "waveShaper (createSaturationCurve (4 / 5)) (- 1) = createSaturationCurve (4 / 5) ! 0"
    using l(1) by (rule waveShaper_ends)
  have w2: "waveShaper (createSaturationCurve (4 / 5)) 1 = createSaturationCurve (4 / 5) ! 44099"
    using waveShaper_ends(1) [OF l(1)] by (simp only: l(2))
  have "createSaturationCurve (4 / 5) ! (samples - 1) < - createSaturationCurve (4 / 5) ! 0"
    by (rule saturationCurve_ends) simp
  then have e: "createSaturationCurve (4 / 5) ! 44099 < - createSaturationCurve (4 / 5) ! 0"
    by (simp add: samples_def)
  from c k t b e show ?thesis unfolding w1 w2 by simp
qed

section \<open>Profile import\<close>



lemma updateEffect_frame:
  "currentNoiseType (updateEffect s e v) = currentNoiseType s
   \<and> eqBands (updateEffect s e v) = eqBands s
   \<and> masterGain (updateEffect s e v) = masterGain s"
  by (simp add: updateEffect_def Let_def split: option.splits panner.splits)





lemma loadEffectKey_frame:
  "currentNoiseType (reached (loadEffectKey page s kv)) = currentNoiseType s
   \<and> eqBands (reached (loadEffectKey page s kv)) = eqBands s
   \<and> masterGain (reached (loadEffectKey page s kv)) = masterGain s"
  by (simp add: loadEffectKey_def updateEffect_frame split: prod.splits jsonValue.splits)

lemma loadEffects_frame:
  "currentNoiseType (reached (loadEffects page s kvs)) = currentNoiseType s
   \<and> eqBands (reached (loadEffects page s kvs)) = eqBands s
   \<and> masterGain (reached (loadEffects page s kvs)) = masterGain s"
proof (induction kvs arbitrary: s)
  case Nil
  then show ?case by simp
next
  case (Cons kv kvs)
  show ?case
  proof (cases "loadEffectKey page s kv")
    case (Returned s')
    then have "reached (loadEffectKey page s kv) = s'" by simp
    with loadEffectKey_frame [of page s kv] Cons.IH [of s'] Returned show ?thesis by simp
  next
    case (Threw s')
    then have "reached (loadEffectKey page s kv) = s'" by simp
    with loadEffectKey_frame [of page s kv] Threw show ?thesis by simp
  qed
qed












lemma loadEffects_frameD:
  assumes "loadEffects page s kvs = Returned s' \<or> loadEffects page s kvs = Threw s'"
  shows "currentNoiseType s' = currentNoiseType s \<and> eqBands s' = eqBands s
    \<and> masterGain s' = masterGain s"
proof -
  from assms have "reached (loadEffects page s kvs) = s'" by auto
  with loadEffects_frame [of page s kvs] show ?thesis by simp
qed




















end
